theory Spec2Isabelle
  imports Complex_Main "HOL-Library.AList" "HOL-Library.Monad_Syntax"
begin

section \<open>Conventions of the embedding\<close>

text \<open>
  The development embeds the domain model (\<^verbatim>\<open>models/schemas.py\<close>), the quiz evaluator
  (\<^verbatim>\<open>tools/quiz_generator.py\<close>), the plan builder (\<^verbatim>\<open>app.py\<close>) and the profile store
  (\<^verbatim>\<open>tools/knowledge_manager.py\<close>).

  \<^item> Python \<^verbatim>\<open>int\<close> is \<^typ>\<open>int\<close>; lengths and counters that start at zero and only
    grow are \<^typ>\<open>nat\<close>.
  \<^item> Python \<^verbatim>\<open>float\<close> is idealised as \<^typ>\<open>real\<close>: rounding of IEEE doubles is not
    modelled, so a statement about a score is a statement about the exact quotient.
  \<^item> Python \<^verbatim>\<open>str\<close> is \<^typ>\<open>string\<close>.
  \<^item> An exception is a value \<open>Inl e\<close> of \<open>py_error + 'a\<close>; a normal return is \<open>Inr v\<close>.
  \<^item> A pydantic model is a record; its constructor, which validates the field
    constraints, is a function \<open>X_new\<close> into \<open>py_error + X\<close>.
  \<^item> In-place mutation is explicit state passing: a method returns the updated object.
  \<^item> A reading of the clock (\<^verbatim>\<open>datetime.now()\<close>) and a library routine that renders or
    parses text (the \<^verbatim>\<open>.1f\<close> format, \<^verbatim>\<open>str\<close> of a \<^verbatim>\<open>datetime\<close>, the timestamp
    validator) is a parameter of the function that uses it.
\<close>

datatype py_error =
    ValidationError "string list"
  | ValueError
  | OverflowError
  | ZeroDivisionError
  | KeyError
  | TypeError
  | OSError

text \<open>\<^verbatim>\<open>ValidationError\<close> carries the names of the offending fields, in declaration order.\<close>

definition py_div :: "real \<Rightarrow> real \<Rightarrow> py_error + real" where
  "py_div a b = (if b = 0 then Inl ZeroDivisionError else Inr (a / b))"

text \<open>
  \<^verbatim>\<open>chr(n)\<close> yields the character with code point \<open>n\<close>. CPython first converts the
  argument to a C \<^verbatim>\<open>int\<close> (32 bits) and raises \<^verbatim>\<open>OverflowError\<close> when it does not fit;
  an argument that fits and lies outside \<^verbatim>\<open>range(0x110000)\<close> raises \<^verbatim>\<open>ValueError\<close>.
  A character is represented by its code point.
\<close>

definition chr :: "int \<Rightarrow> py_error + nat" where
  "chr n =
     (if n < - 2147483648 \<or> 2147483647 < n then Inl OverflowError
      else if 0 \<le> n \<and> n < 1114112 then Inr (nat n)
      else Inl ValueError)"

section \<open>Quiz questions and quizzes\<close>

record QuizQuestion =
  question :: string
  options :: "string list"
  correct_index :: int
  explanation :: "string option"

text \<open>
  \<^verbatim>\<open>options: List[str] = Field(..., min_items=2, max_items=4)\<close> and
  \<^verbatim>\<open>correct_index: int = Field(..., ge=0, lt=4)\<close>. The class declares no validator that
  relates the two fields.
\<close>

definition QuizQuestion_new ::
  "string \<Rightarrow> string list \<Rightarrow> int \<Rightarrow> string option \<Rightarrow> py_error + QuizQuestion" where
  "QuizQuestion_new q opts ci expl =
     (let errs =
            (if 2 \<le> length opts \<and> length opts \<le> 4 then [] else [''options'']) @
            (if 0 \<le> ci \<and> ci < 4 then [] else [''correct_index''])
      in if errs = []
         then Inr \<lparr>question = q, options = opts, correct_index = ci, explanation = expl\<rparr>
         else Inl (ValidationError errs))"

record Quiz =
  module_id :: int
  topic :: string
  difficulty :: string
  questions :: "QuizQuestion list"

text \<open>\<^verbatim>\<open>questions: List[QuizQuestion] = Field(..., min_items=3, max_items=10)\<close>.\<close>

definition Quiz_new ::
  "int \<Rightarrow> string \<Rightarrow> string \<Rightarrow> QuizQuestion list \<Rightarrow> py_error + Quiz" where
  "Quiz_new mid tp diff qs =
     (if 3 \<le> length qs \<and> length qs \<le> 10
      then Inr \<lparr>module_id = mid, topic = tp, difficulty = diff, questions = qs\<rparr>
      else Inl (ValidationError [''questions'']))"

text \<open>
  \<^verbatim>\<open>Quiz.calculate_score\<close>. The guard returns \<open>0.0\<close> for an empty or mismatched answer
  list; past it the two lists have the same positive length, so \<^verbatim>\<open>self.questions[i]\<close> is
  in range for every \<open>i\<close> that \<^verbatim>\<open>enumerate(user_answers)\<close> yields.
\<close>

definition calculate_score :: "Quiz \<Rightarrow> int list \<Rightarrow> py_error + real" where
  "calculate_score quiz user_answers =
     (if user_answers = [] \<or> length user_answers \<noteq> length (questions quiz) then Inr 0
      else
        let correct = length (filter (\<lambda>(i, answer). answer = correct_index (questions quiz ! i))
                                (enumerate 0 user_answers))
        in case py_div (real correct) (real (length (questions quiz))) of
             Inl e \<Rightarrow> Inl e
           | Inr d \<Rightarrow> Inr (d * 100))"

section \<open>The quiz evaluator\<close>

text \<open>One entry of the \<^verbatim>\<open>results\<close> list that \<^verbatim>\<open>evaluate_answers\<close> builds.\<close>

record answer_result =
  question_num :: nat
  question_text :: string
  user_answer :: nat
  correct_answer :: nat
  is_correct :: bool
  explanation_text :: "string option"

text \<open>
  The dictionary that \<^verbatim>\<open>evaluate_answers\<close> returns: either the two-key error dictionary
  or the full result. The \<^verbatim>\<open>percentage\<close> key holds \<^verbatim>\<open>f"{score:.1f}%"\<close>; the formatting
  of a float to one decimal is a parameter \<open>fmt\<close> of the evaluator.
\<close>

record evaluation =
  score :: real
  correct :: nat
  total :: nat
  percentage :: string
  feedback :: string
  results :: "answer_result list"

datatype eval_result =
    EvalError string real
  | EvalOk evaluation

text \<open>The \<^verbatim>\<open>if/elif\<close> chain of lines 189 to 198 of \<^verbatim>\<open>quiz_generator.py\<close>.\<close>

definition feedback_for :: "real \<Rightarrow> string" where
  "feedback_for s =
     (if s \<ge> 90 then ''Excellent! You've mastered this topic.''
      else if s \<ge> 80 then ''Great work! You have a strong understanding.''
      else if s \<ge> 70 then ''Good job! You're on the right track.''
      else if s \<ge> 60 then ''Fair performance. Review the material and try again.''
      else ''More study needed. Don't worry, practice makes perfect!'')"

text \<open>
  The \<^verbatim>\<open>for\<close> loop over \<^verbatim>\<open>enumerate(zip(quiz.questions, user_answers))\<close>, with the
  loop index, the running \<^verbatim>\<open>correct_count\<close> and the \<^verbatim>\<open>results\<close> list as accumulators.
  Both calls of \<^verbatim>\<open>chr\<close> may raise.
\<close>

fun eval_loop ::
  "nat \<Rightarrow> (QuizQuestion \<times> int) list \<Rightarrow> nat \<Rightarrow> answer_result list
   \<Rightarrow> py_error + (nat \<times> answer_result list)" where
  "eval_loop idx [] correct_count rs = Inr (correct_count, rs)"
| "eval_loop idx ((q, ua) # rest) correct_count rs =
     (let ok = (ua = correct_index q);
          correct_count' = (if ok then correct_count + 1 else correct_count)
      in case chr (65 + ua) of
           Inl e \<Rightarrow> Inl e
         | Inr uc \<Rightarrow>
             (case chr (65 + correct_index q) of
                Inl e \<Rightarrow> Inl e
              | Inr cc \<Rightarrow>
                  eval_loop (idx + 1) rest correct_count'
                    (rs @ [\<lparr>question_num = idx + 1, question_text = question q,
                            user_answer = uc, correct_answer = cc, is_correct = ok,
                            explanation_text = explanation q\<rparr>])))"

definition evaluate_answers ::
  "(real \<Rightarrow> string) \<Rightarrow> Quiz \<Rightarrow> int list \<Rightarrow> py_error + eval_result" where
  "evaluate_answers fmt quiz user_answers =
     (if length user_answers \<noteq> length (questions quiz)
      then Inr (EvalError ''Number of answers doesn't match number of questions'' 0)
      else
        case eval_loop 0 (zip (questions quiz) user_answers) 0 [] of
          Inl e \<Rightarrow> Inl e
        | Inr (correct_count, rs) \<Rightarrow>
            (case py_div (real correct_count) (real (length (questions quiz))) of
               Inl e \<Rightarrow> Inl e
             | Inr d \<Rightarrow>
                 (let sc = d * 100
                  in Inr (EvalOk \<lparr>score = sc, correct = correct_count,
                                   total = length (questions quiz),
                                   percentage = fmt sc,
                                   feedback = feedback_for sc, results = rs\<rparr>))))"

text \<open>
  The number of positions at which the answer equals the question's \<open>correct_index\<close>:
  the quantity the specification calls the correct count.
\<close>

definition matches :: "QuizQuestion list \<Rightarrow> int list \<Rightarrow> nat" where
  "matches qs ans = length (filter (\<lambda>(q, a). a = correct_index q) (zip qs ans))"

text \<open>
  Objects that came out of the validating constructors. \<open>valid_quiz\<close> is what the
  specification means by `a Quiz': between 3 and 10 questions, each a validated
  \<open>QuizQuestion\<close>.
\<close>

definition valid_question :: "QuizQuestion \<Rightarrow> bool" where
  "valid_question q =
     (QuizQuestion_new (question q) (options q) (correct_index q) (explanation q) = Inr q)"

definition valid_quiz :: "Quiz \<Rightarrow> bool" where
  "valid_quiz quiz =
     (Quiz_new (module_id quiz) (topic quiz) (difficulty quiz) (questions quiz) = Inr quiz
      \<and> list_all valid_question (questions quiz))"

text \<open>
  The answers the docstring of \<^verbatim>\<open>evaluate_answers\<close> documents (\<^verbatim>\<open>List of user's answer
  indices (0-3)\<close>), and the wider range of answers \<open>a\<close> for which \<^verbatim>\<open>chr(65 + a)\<close> is
  defined.
\<close>

definition documented_answer :: "int \<Rightarrow> bool" where
  "documented_answer a = (0 \<le> a \<and> a \<le> 3)"

definition chr_defined :: "int \<Rightarrow> bool" where
  "chr_defined a = (- 65 \<le> a \<and> a \<le> 1114046)"

text \<open>A three-question quiz whose correct indices are \<open>[1, 1, 1]\<close>.\<close>

definition example_quiz :: Quiz where
  "example_quiz =
     \<lparr>module_id = 1, topic = ''Python Functions'', difficulty = ''beginner'',
      questions =
        [\<lparr>question = ''q1'', options = [''a'', ''b''], correct_index = 1, explanation = None\<rparr>,
         \<lparr>question = ''q2'', options = [''a'', ''b''], correct_index = 1, explanation = None\<rparr>,
         \<lparr>question = ''q3'', options = [''a'', ''b''], correct_index = 1, explanation = None\<rparr>]\<rparr>"

section \<open>Modules and learning plans\<close>

datatype ModuleStatus = LOCKED | ACTIVE | COMPLETED

text \<open>A \<^verbatim>\<open>datetime\<close> is a point in time, counted in microseconds.\<close>

type_synonym datetime = nat

text \<open>
  \<^verbatim>\<open>class Module\<close>. The field \<^verbatim>\<open>id\<close> is \<open>id_m\<close> here. The constructor checks
  \<^verbatim>\<open>estimated_hours\<close> (\<^verbatim>\<open>ge=1, le=20\<close>) and \<^verbatim>\<open>mastery_score\<close> (\<^verbatim>\<open>ge=0.0, le=100.0\<close>);
  the model does not validate on assignment.
\<close>

record Module =
  id_m :: int
  title :: string
  status :: ModuleStatus
  topics :: "string list"
  estimated_hours :: int
  mastery_score :: real

definition Module_new ::
  "int \<Rightarrow> string \<Rightarrow> ModuleStatus \<Rightarrow> string list \<Rightarrow> int \<Rightarrow> real \<Rightarrow> py_error + Module" where
  "Module_new i t st tps h ms =
     (let errs =
            (if 1 \<le> h \<and> h \<le> 20 then [] else [''estimated_hours'']) @
            (if 0 \<le> ms \<and> ms \<le> 100 then [] else [''mastery_score''])
      in if errs = []
         then Inr \<lparr>id_m = i, title = t, status = st, topics = tps, estimated_hours = h,
                   mastery_score = ms\<rparr>
         else Inl (ValidationError errs))"

record LearningPlan =
  skill :: string
  level :: string
  modules :: "Module list"
  created :: datetime

definition get_active_module :: "LearningPlan \<Rightarrow> Module option" where
  "get_active_module plan = find (\<lambda>m. status m = ACTIVE) (modules plan)"

text \<open>
  \<^verbatim>\<open>LearningPlan.complete_module\<close>: the loop over \<^verbatim>\<open>enumerate(self.modules)\<close>, started
  at index \<open>idx\<close>. At the first module whose id matches it marks the module completed,
  stores the score, activates the module at \<open>idx + 1\<close> when there is one, and breaks.
\<close>

function complete_loop :: "nat \<Rightarrow> Module list \<Rightarrow> int \<Rightarrow> real \<Rightarrow> Module list" where
  "complete_loop idx ms mid sc =
     (if idx < length ms then
        (if id_m (ms ! idx) = mid then
           (let ms1 = ms[idx := (ms ! idx)\<lparr>status := COMPLETED, mastery_score := sc\<rparr>]
            in if idx + 1 < length ms1
               then ms1[idx + 1 := (ms1 ! (idx + 1))\<lparr>status := ACTIVE\<rparr>]
               else ms1)
         else complete_loop (idx + 1) ms mid sc)
      else ms)"
  by pat_completeness auto
termination
  by (relation "measure (\<lambda>(idx, ms, mid, sc). length ms - idx)") auto

declare complete_loop.simps [simp del]

definition complete_module :: "LearningPlan \<Rightarrow> int \<Rightarrow> real \<Rightarrow> LearningPlan" where
  "complete_module plan mid sc = plan\<lparr>modules := complete_loop 0 (modules plan) mid sc\<rparr>"

text \<open>Decimal rendering of a natural number, for \<^verbatim>\<open>f"Topic {i+1}"\<close>.\<close>

function str_nat :: "nat \<Rightarrow> string" where
  "str_nat n =
     (if n < 10 then [''0123456789'' ! n]
      else str_nat (n div 10) @ [''0123456789'' ! (n mod 10)])"
  by pat_completeness auto
termination
  by (relation "measure (\<lambda>n. n)") auto

declare str_nat.simps [simp del]

text \<open>
  \<^verbatim>\<open>generate_learning_plan\<close> of \<^verbatim>\<open>app.py\<close>. \<open>build_modules\<close> is its loop over
  \<^verbatim>\<open>enumerate(module_titles)\<close>, appending one validated \<open>Module\<close> per title; \<open>now\<close> is
  the reading of \<^verbatim>\<open>datetime.now()\<close>.
\<close>

fun build_modules :: "nat \<Rightarrow> string list \<Rightarrow> Module list \<Rightarrow> py_error + Module list" where
  "build_modules idx [] ms = Inr ms"
| "build_modules idx (t # ts) ms =
     (case Module_new (int idx + 1) t (if idx = 0 then ACTIVE else LOCKED)
             (map (\<lambda>i. ''Topic '' @ str_nat (i + 1)) [0..<3]) (4 + int idx * 2) 0 of
        Inl e \<Rightarrow> Inl e
      | Inr m \<Rightarrow> build_modules (idx + 1) ts (ms @ [m]))"

definition generate_learning_plan :: "string \<Rightarrow> string \<Rightarrow> datetime \<Rightarrow> py_error + LearningPlan" where
  "generate_learning_plan target_skill starting_level now =
     (let module_titles =
            (if starting_level = ''beginner'' then
               [''Foundations of '' @ target_skill,
                ''Core Concepts in '' @ target_skill,
                ''Practical Applications of '' @ target_skill]
             else if starting_level = ''intermediate'' then
               [''Advanced Concepts in '' @ target_skill,
                ''Real-World '' @ target_skill @ '' Projects'',
                ''Mastering '' @ target_skill]
             else
               [''Expert-Level '' @ target_skill,
                ''Cutting-Edge '' @ target_skill @ '' Research'',
                target_skill @ '' Innovation & Leadership''])
      in case build_modules 0 module_titles [] of
           Inl e \<Rightarrow> Inl e
         | Inr ms \<Rightarrow>
             Inr \<lparr>skill = target_skill, level = starting_level, modules = ms, created = now\<rparr>)"

text \<open>
  Normal progression: a sequence of \<^verbatim>\<open>complete_module\<close> calls, one per score, each aimed at
  the id of the module that \<^verbatim>\<open>get_active_module\<close> returns. With no active module there is
  no such call to make and the sequence ends.
\<close>

fun progress :: "LearningPlan \<Rightarrow> real list \<Rightarrow> LearningPlan" where
  "progress plan [] = plan"
| "progress plan (sc # scs) =
     (case get_active_module plan of
        None \<Rightarrow> plan
      | Some m \<Rightarrow> progress (complete_module plan (id_m m) sc) scs)"

definition active_count :: "LearningPlan \<Rightarrow> nat" where
  "active_count plan = length (filter (\<lambda>m. status m = ACTIVE) (modules plan))"

text \<open>
  Auxiliary: the \<open>k\<close>-th module of a generated plan (id \<open>k\<close>, three placeholder topics,
  \<open>2 + 2k\<close> hours) with a given title, status and mastery score; and a three-module plan
  whose second module is the active one.
\<close>

definition module_of :: "nat \<Rightarrow> string \<Rightarrow> ModuleStatus \<Rightarrow> real \<Rightarrow> Module" where
  "module_of k t st ms =
     \<lparr>id_m = int k, title = t, status = st, topics = [''Topic 1'', ''Topic 2'', ''Topic 3''],
      estimated_hours = 2 + 2 * int k, mastery_score = ms\<rparr>"

definition example_plan :: LearningPlan where
  "example_plan =
     \<lparr>skill = ''Python'', level = ''beginner'',
      modules = [module_of 1 ''Foundations of Python'' COMPLETED 90,
                 module_of 2 ''Core Concepts in Python'' ACTIVE 0,
                 module_of 3 ''Practical Applications of Python'' LOCKED 0],
      created = 0\<rparr>"

section \<open>User profiles\<close>

text \<open>
  \<^verbatim>\<open>class UserProfile\<close>. The field \<^verbatim>\<open>skills\<close> is documented as
  \<^verbatim>\<open>Dict of skill -> {modules: List, avg_score: float}\<close>, and every entry that
  \<^verbatim>\<open>update_skill_progress\<close> writes has that shape, with module records
  \<^verbatim>\<open>{title, score, completed_at}\<close>. The records below are this shape; the dictionary is
  an association list in insertion order, looked up with \<open>map_of\<close> and written with
  \<open>AList.update\<close>, which overwrites the entry of a key in place and appends a new key at
  the end, as assignment to a Python \<^verbatim>\<open>dict\<close> does.
\<close>

record completion =
  title_c :: string
  score_c :: real
  completed_at :: string

record skill_data =
  modules_c :: "completion list"
  avg_score :: real

record UserProfile =
  user_id :: string
  skills :: "(string \<times> skill_data) list"
  total_modules_completed :: int
  overall_avg_score :: real
  last_updated :: datetime

text \<open>\<^verbatim>\<open>UserProfile(user_id=user_id)\<close>: every other field takes its default.\<close>

definition UserProfile_fresh :: "string \<Rightarrow> datetime \<Rightarrow> UserProfile" where
  "UserProfile_fresh uid now =
     \<lparr>user_id = uid, skills = [], total_modules_completed = 0, overall_avg_score = 0,
      last_updated = now\<rparr>"

text \<open>
  \<^verbatim>\<open>UserProfile.update_skill_progress\<close>. \<open>stamp\<close> is the text of the first
  \<^verbatim>\<open>datetime.now().isoformat()\<close> and \<open>now\<close> the second reading of the clock. The lookup
  \<^verbatim>\<open>self.skills[skill]\<close> raises \<^verbatim>\<open>KeyError\<close> on a missing key and the first division
  raises on an empty list; the second division is guarded by \<^verbatim>\<open>if all_scores\<close>.
\<close>

definition update_skill_progress ::
  "UserProfile \<Rightarrow> string \<Rightarrow> string \<Rightarrow> real \<Rightarrow> string \<Rightarrow> datetime \<Rightarrow> py_error + UserProfile" where
  "update_skill_progress p sk module_title sc stamp now =
     (let skills1 =
            (if map_of (skills p) sk = None
             then AList.update sk \<lparr>modules_c = [], avg_score = 0\<rparr> (skills p)
             else skills p)
      in case map_of skills1 sk of
           None \<Rightarrow> Inl KeyError
         | Some entry \<Rightarrow>
             (let entry1 = entry\<lparr>modules_c := modules_c entry @
                              [\<lparr>title_c = module_title, score_c = sc, completed_at = stamp\<rparr>]\<rparr>;
                  scores = map score_c (modules_c entry1)
              in case py_div (sum_list scores) (real (length scores)) of
                   Inl e \<Rightarrow> Inl e
                 | Inr avg \<Rightarrow>
                     (let skills2 = AList.update sk (entry1\<lparr>avg_score := avg\<rparr>) skills1;
                          all_scores =
                            concat (map (\<lambda>(k, skill_data). map score_c (modules_c skill_data))
                                      skills2)
                      in Inr (p\<lparr>skills := skills2,
                                total_modules_completed := total_modules_completed p + 1,
                                last_updated := now,
                                overall_avg_score :=
                                  (if all_scores \<noteq> []
                                   then sum_list all_scores / real (length all_scores)
                                   else overall_avg_score p)\<rparr>))))"

text \<open>
  For stating the properties: the module records stored under a skill (none when the
  skill is absent), and every score of a profile, skill by skill.
\<close>

definition records_of :: "UserProfile \<Rightarrow> string \<Rightarrow> completion list" where
  "records_of p sk = (case map_of (skills p) sk of None \<Rightarrow> [] | Some e \<Rightarrow> modules_c e)"

fun every_score :: "(string \<times> skill_data) list \<Rightarrow> real list" where
  "every_score [] = []"
| "every_score ((k, e) # rest) = map score_c (modules_c e) @ every_score rest"

text \<open>A profile with one completion, scored 80, under the skill \<open>Python\<close>.\<close>

definition profile_one :: UserProfile where
  "profile_one =
     \<lparr>user_id = ''demo_user'',
      skills = [(''Python'',
                 \<lparr>modules_c = [\<lparr>title_c = ''Fundamentals'', score_c = 80,
                                 completed_at = ''2025-01-01T10:00:00''\<rparr>],
                  avg_score = 80\<rparr>)],
      total_modules_completed = 1, overall_avg_score = 80, last_updated = 1\<rparr>"

section \<open>The profile store: paths\<close>

text \<open>
  A \<^verbatim>\<open>pathlib\<close> path on a POSIX system, as \<^verbatim>\<open>PurePosixPath\<close> holds it: the root
  (empty for a relative path, \<open>/\<close> or \<open>//\<close>) and the components.
\<close>

record pure_path =
  root_p :: string
  parts_p :: "string list"

text \<open>\<^verbatim>\<open>str.split(sep)\<close> for a one-character separator.\<close>

fun split_on :: "char \<Rightarrow> string \<Rightarrow> string list" where
  "split_on c [] = [[]]"
| "split_on c (x # xs) =
     (if x = c then [] # split_on c xs
      else (case split_on c xs of
              [] \<Rightarrow> [[x]]
            | w # ws \<Rightarrow> (x # w) # ws))"

text \<open>
  \<^verbatim>\<open>posixpath.join(a, b)\<close>, by which the operator \<^verbatim>\<open>/\<close> of a path combines its operands:
  an absolute right operand replaces the left one.
\<close>

definition posix_join :: "string \<Rightarrow> string \<Rightarrow> string" where
  "posix_join a b =
     (if take 1 b = ''/'' then b
      else if a = [] \<or> last a = CHR ''/'' then a @ b
      else a @ ''/'' @ b)"

text \<open>
  Parsing the text of a path: \<^verbatim>\<open>posixpath.splitroot\<close> takes the root off (exactly two
  leading slashes are kept as the root \<open>//\<close>), and the rest is split at \<open>/\<close>, dropping
  empty components and \<open>.\<close> components. A \<open>..\<close> component is kept.
\<close>

definition parse_path :: "string \<Rightarrow> pure_path" where
  "parse_path s =
     (if take 1 s \<noteq> ''/'' then
        \<lparr>root_p = [], parts_p = filter (\<lambda>x. x \<noteq> [] \<and> x \<noteq> ''.'') (split_on CHR ''/'' s)\<rparr>
      else if take 1 (drop 1 s) \<noteq> ''/'' \<or> take 1 (drop 2 s) = ''/'' then
        \<lparr>root_p = ''/'',
         parts_p = filter (\<lambda>x. x \<noteq> [] \<and> x \<noteq> ''.'') (split_on CHR ''/'' (drop 1 s))\<rparr>
      else
        \<lparr>root_p = ''//'',
         parts_p = filter (\<lambda>x. x \<noteq> [] \<and> x \<noteq> ''.'') (split_on CHR ''/'' (drop 2 s))\<rparr>)"

text \<open>\<^verbatim>\<open>self.storage_path = Path("data/user_profiles")\<close>.\<close>

definition storage_path :: string where
  "storage_path = ''data/user_profiles''"

text \<open>
  \<^verbatim>\<open>_get_profile_path\<close>: \<^verbatim>\<open>self.storage_path / f"{user_id}.json"\<close>. The user id goes into
  the path text as it is.
\<close>

definition get_profile_path :: "string \<Rightarrow> pure_path" where
  "get_profile_path uid = parse_path (posix_join storage_path (uid @ ''.json''))"

text \<open>
  Where a relative path leads, read lexically (no symbolic links): each \<open>..\<close> steps out of
  the directory reached so far, and a \<open>..\<close> with nothing left to step out of leaves the
  working directory. A path lies inside the storage directory when it is relative and
  leads strictly below \<open>data/user_profiles\<close>.
\<close>

fun resolve :: "string list \<Rightarrow> string list \<Rightarrow> string list option" where
  "resolve stack [] = Some (rev stack)"
| "resolve stack (c # cs) =
     (if c = ''..'' then (case stack of [] \<Rightarrow> None | d # ds \<Rightarrow> resolve ds cs)
      else resolve (c # stack) cs)"

definition inside_storage :: "pure_path \<Rightarrow> bool" where
  "inside_storage p =
     (root_p p = [] \<and>
      (case resolve [] (parts_p p) of
         None \<Rightarrow> False
       | Some ps \<Rightarrow>
           length (parts_p (parse_path storage_path)) < length ps
           \<and> take (length (parts_p (parse_path storage_path))) ps =
               parts_p (parse_path storage_path)))"

section \<open>The profile store: records\<close>

text \<open>
  The content of a profile file is the JSON value that \<^verbatim>\<open>json.dump\<close> writes and
  \<^verbatim>\<open>json.load\<close> reads back; its rendering as text is not modelled.
\<close>

datatype json =
    JNull
  | JBool bool
  | JInt int
  | JFloat real
  | JStr string
  | JList "json list"
  | JObj "(string \<times> json) list"

text \<open>
  \<^verbatim>\<open>profile.model_dump()\<close> passed through \<^verbatim>\<open>json.dump(..., default=str)\<close>: the only value
  that needs the \<^verbatim>\<open>default\<close> hook is the \<^verbatim>\<open>datetime\<close> of \<^verbatim>\<open>last_updated\<close>, written as
  \<open>str_dt\<close> renders it (\<^verbatim>\<open>str\<close> of a \<^verbatim>\<open>datetime\<close>).
\<close>

definition completion_to_json :: "completion \<Rightarrow> json" where
  "completion_to_json c =
     JObj [(''title'', JStr (title_c c)), (''score'', JFloat (score_c c)),
           (''completed_at'', JStr (completed_at c))]"

definition skill_to_json :: "skill_data \<Rightarrow> json" where
  "skill_to_json e =
     JObj [(''modules'', JList (map completion_to_json (modules_c e))),
           (''avg_score'', JFloat (avg_score e))]"

definition model_dump_json :: "(datetime \<Rightarrow> string) \<Rightarrow> UserProfile \<Rightarrow> json" where
  "model_dump_json str_dt p =
     JObj [(''user_id'', JStr (user_id p)),
           (''skills'', JObj (map (\<lambda>(k, e). (k, skill_to_json e)) (skills p))),
           (''total_modules_completed'', JInt (total_modules_completed p)),
           (''overall_avg_score'', JFloat (overall_avg_score p)),
           (''last_updated'', JStr (str_dt (last_updated p)))]"

text \<open>Reading a JSON value: a key of an object, and a value of an expected type.\<close>

definition get_key :: "json \<Rightarrow> string \<Rightarrow> json option" where
  "get_key j k = (case j of JObj kvs \<Rightarrow> map_of kvs k | _ \<Rightarrow> None)"

definition as_str :: "json \<Rightarrow> string option" where
  "as_str j = (case j of JStr s \<Rightarrow> Some s | _ \<Rightarrow> None)"

definition as_int :: "json \<Rightarrow> int option" where
  "as_int j = (case j of JInt n \<Rightarrow> Some n | _ \<Rightarrow> None)"

definition as_float :: "json \<Rightarrow> real option" where
  "as_float j = (case j of JFloat x \<Rightarrow> Some x | JInt n \<Rightarrow> Some (real_of_int n) | _ \<Rightarrow> None)"

definition as_list :: "json \<Rightarrow> json list option" where
  "as_list j = (case j of JList xs \<Rightarrow> Some xs | _ \<Rightarrow> None)"

text \<open>
  The entries of \<^verbatim>\<open>skills\<close> read back into the documented shape; \<open>None\<close> for a value of
  another shape.
\<close>

definition completion_of_json :: "json \<Rightarrow> completion option" where
  "completion_of_json j =
     do {
       t \<leftarrow> get_key j ''title'' \<bind> as_str;
       s \<leftarrow> get_key j ''score'' \<bind> as_float;
       c \<leftarrow> get_key j ''completed_at'' \<bind> as_str;
       Some \<lparr>title_c = t, score_c = s, completed_at = c\<rparr>
     }"

definition skill_of_json :: "json \<Rightarrow> skill_data option" where
  "skill_of_json j =
     do {
       ms \<leftarrow> get_key j ''modules'' \<bind> as_list;
       cs \<leftarrow> those (map completion_of_json ms);
       a \<leftarrow> get_key j ''avg_score'' \<bind> as_float;
       Some \<lparr>modules_c = cs, avg_score = a\<rparr>
     }"

definition skills_of_json :: "json \<Rightarrow> (string \<times> skill_data) list option" where
  "skills_of_json j =
     (case j of
        JObj kvs \<Rightarrow> those (map (\<lambda>(k, v). map_option (Pair k) (skill_of_json v)) kvs)
      | _ \<Rightarrow> None)"

text \<open>A field with a default: the default when the key is missing, else the value read.\<close>

definition field_or :: "json \<Rightarrow> string \<Rightarrow> 'a \<Rightarrow> (json \<Rightarrow> 'a option) \<Rightarrow> 'a option" where
  "field_or j k d f = (case get_key j k of None \<Rightarrow> Some d | Some v \<Rightarrow> f v)"

text \<open>
  \<^verbatim>\<open>UserProfile(**data)\<close>. \<^verbatim>\<open>user_id\<close> is required, the other fields have defaults, and
  \<open>parse_dt\<close> is the validator's reading of a timestamp string. Unpacking a value that is
  no dictionary raises \<^verbatim>\<open>TypeError\<close>. A validation failure is reported without the field
  names. Only the shapes that \<open>model_dump_json\<close> produces are read; a value pydantic would
  coerce from another shape counts as a failure here.
\<close>

definition UserProfile_of_json ::
  "(string \<Rightarrow> datetime option) \<Rightarrow> datetime \<Rightarrow> json \<Rightarrow> py_error + UserProfile" where
  "UserProfile_of_json parse_dt now j =
     (case j of
        JObj kvs \<Rightarrow>
          (case do {
                  uid \<leftarrow> get_key j ''user_id'' \<bind> as_str;
                  sk \<leftarrow> field_or j ''skills'' [] skills_of_json;
                  n \<leftarrow> field_or j ''total_modules_completed'' 0 as_int;
                  x \<leftarrow> field_or j ''overall_avg_score'' 0 as_float;
                  t \<leftarrow> field_or j ''last_updated'' now (\<lambda>v. as_str v \<bind> parse_dt);
                  Some \<lparr>user_id = uid, skills = sk, total_modules_completed = n,
                        overall_avg_score = x, last_updated = t\<rparr>
                } of
             None \<Rightarrow> Inl (ValidationError [])
           | Some p \<Rightarrow> Inr p)
      | _ \<Rightarrow> Inl TypeError)"

text \<open>
  The storage medium: the content of each file, and whether \<^verbatim>\<open>open(path, "w")\<close>
  succeeds there (the directory exists, the file may be written, the disk has room).
\<close>

record store =
  files :: "pure_path \<Rightarrow> json option"
  writable :: "pure_path \<Rightarrow> bool"

text \<open>\<^verbatim>\<open>_save_profile\<close> and \<^verbatim>\<open>_load_profile\<close>.\<close>

definition save_profile :: "(datetime \<Rightarrow> string) \<Rightarrow> store \<Rightarrow> UserProfile \<Rightarrow> py_error + store" where
  "save_profile str_dt st profile =
     (let profile_path = get_profile_path (user_id profile)
      in if writable st profile_path
         then Inr (st\<lparr>files := (files st)(profile_path \<mapsto> model_dump_json str_dt profile)\<rparr>)
         else Inl OSError)"

definition load_profile ::
  "(string \<Rightarrow> datetime option) \<Rightarrow> datetime \<Rightarrow> store \<Rightarrow> string \<Rightarrow> py_error + UserProfile" where
  "load_profile parse_dt now st uid =
     (let profile_path = get_profile_path uid
      in case files st profile_path of
           Some data \<Rightarrow> UserProfile_of_json parse_dt now data
         | None \<Rightarrow> Inr (UserProfile_fresh uid now))"

section \<open>Properties of the quiz evaluator\<close>

lemma valid_question_range:
  "valid_question q \<Longrightarrow> 0 \<le> correct_index q \<and> correct_index q < 4"
  by (auto simp: valid_question_def QuizQuestion_new_def Let_def split: if_splits)

lemma Quiz_new_length:
  "Quiz_new mid tp diff qs = Inr quiz \<Longrightarrow>
     questions quiz = qs \<and> 3 \<le> length qs \<and> length qs \<le> 10"
  by (auto simp: Quiz_new_def split: if_splits)

lemma valid_quiz_length:
  "valid_quiz quiz \<Longrightarrow> 3 \<le> length (questions quiz) \<and> length (questions quiz) \<le> 10"
  by (auto simp: valid_quiz_def dest: Quiz_new_length)

lemma example_quiz_valid: "valid_quiz example_quiz"
  by (simp add: valid_quiz_def example_quiz_def Quiz_new_def valid_question_def
      QuizQuestion_new_def)

text \<open>The loop raises nothing but the two errors of \<^verbatim>\<open>chr\<close>.\<close>

lemma eval_loop_error:
  "eval_loop idx zs cc rs = Inl e \<Longrightarrow> e = ValueError \<or> e = OverflowError"
proof (induction zs arbitrary: idx cc rs)
  case Nil
  then show ?case by simp
next
  case (Cons z zs)
  obtain q ua where z: "z = (q, ua)" by (cases z)
  from Cons.prems show ?case
    unfolding z
    by (auto simp: Let_def chr_def split: sum.splits if_splits dest: Cons.IH)
qed

text \<open>
  When every \<^verbatim>\<open>chr\<close> is defined the loop runs to its end, and the count it returns is
  the count it started from plus the number of matching positions.
\<close>

lemma eval_loop_count:
  assumes "\<forall>(q, a) \<in> set zs. chr_defined a \<and> 0 \<le> correct_index q \<and> correct_index q < 4"
  shows "\<exists>rs'. eval_loop idx zs cc rs =
            Inr (cc + length (filter (\<lambda>(q, a). a = correct_index q) zs), rs')
          \<and> length rs' = length rs + length zs"
  using assms
proof (induction zs arbitrary: idx cc rs)
  case Nil
  then show ?case by simp
next
  case (Cons z zs)
  obtain q ua where z: "z = (q, ua)" by (cases z)
  from Cons.prems have a: "chr (65 + ua) = Inr (nat (65 + ua))"
    and c: "chr (65 + correct_index q) = Inr (nat (65 + correct_index q))"
    and rest: "\<forall>(q, a) \<in> set zs. chr_defined a \<and> 0 \<le> correct_index q \<and> correct_index q < 4"
    by (auto simp: z chr_defined_def chr_def)
  let ?cc = "if ua = correct_index q then cc + 1 else cc"
  let ?rs = "rs @ [\<lparr>question_num = idx + 1, question_text = question q,
                    user_answer = nat (65 + ua), correct_answer = nat (65 + correct_index q),
                    is_correct = (ua = correct_index q), explanation_text = explanation q\<rparr>]"
  from Cons.IH [OF rest, of "idx + 1" ?cc ?rs]
  obtain rs' where r: "eval_loop (idx + 1) zs ?cc ?rs =
      Inr (?cc + length (filter (\<lambda>(q, a). a = correct_index q) zs), rs')"
    and l: "length rs' = length ?rs + length zs"
    by blast
  have "eval_loop idx (z # zs) cc rs = eval_loop (idx + 1) zs ?cc ?rs"
    unfolding z by (simp add: a c Let_def)
  with r l show ?case
    unfolding z by auto
qed

lemma eval_loop_valid:
  assumes "valid_quiz quiz" and "list_all chr_defined a"
  shows "\<exists>rs'. eval_loop 0 (zip (questions quiz) a) 0 [] =
            Inr (matches (questions quiz) a, rs')"
proof -
  have "\<forall>(q, x) \<in> set (zip (questions quiz) a).
          chr_defined x \<and> 0 \<le> correct_index q \<and> correct_index q < 4"
  proof (clarify)
    fix q x assume m: "(q, x) \<in> set (zip (questions quiz) a)"
    from m have "q \<in> set (questions quiz)" by (rule set_zip_leftD)
    with assms(1) have "valid_question q" by (simp add: valid_quiz_def list_all_iff)
    then have r: "0 \<le> correct_index q \<and> correct_index q < 4" by (rule valid_question_range)
    from m have "x \<in> set a" by (rule set_zip_rightD)
    with assms(2) have "chr_defined x" by (simp add: list_all_iff)
    with r show "chr_defined x \<and> 0 \<le> correct_index q \<and> correct_index q < 4" by simp
  qed
  from eval_loop_count [OF this, of 0 0 "[]"] show ?thesis
    by (auto simp: matches_def)
qed

lemma documented_chr_defined: "list_all documented_answer a \<Longrightarrow> list_all chr_defined a"
  by (auto simp: list_all_iff documented_answer_def chr_defined_def)

text \<open>
  Claim C1, as amended. For a validated quiz and an answer list of the same length whose
  entries are answer indices in the documented range 0 to 3, \<^verbatim>\<open>evaluate_answers\<close>
  returns a result whose score is \<open>100 * correct_count / len(questions)\<close>, where
  \<open>correct_count\<close> is the number of positions at which the answer equals
  \<open>correct_index\<close>, and whose feedback is chosen by the inclusive thresholds 90, 80, 70,
  60 in descending order. A score of exactly 90 gets the top tier and 89.999 the next
  one.
\<close>

theorem evaluate_answers_score_and_tier:
  assumes "valid_quiz quiz"
    and "length a = length (questions quiz)"
    and "list_all documented_answer a"
  shows "\<exists>ev. evaluate_answers fmt quiz a = Inr (EvalOk ev)
     \<and> correct ev = matches (questions quiz) a
     \<and> total ev = length (questions quiz)
     \<and> percentage ev = fmt (score ev)
     \<and> score ev = 100 * real (matches (questions quiz) a) / real (length (questions quiz))
     \<and> feedback ev =
         (if score ev \<ge> 90 then ''Excellent! You've mastered this topic.''
          else if score ev \<ge> 80 then ''Great work! You have a strong understanding.''
          else if score ev \<ge> 70 then ''Good job! You're on the right track.''
          else if score ev \<ge> 60 then ''Fair performance. Review the material and try again.''
          else ''More study needed. Don't worry, practice makes perfect!'')
     \<and> feedback_for 90 = ''Excellent! You've mastered this topic.''
     \<and> feedback_for (89999 / 1000) = ''Great work! You have a strong understanding.''"
proof -
  have t: "feedback_for 90 = ''Excellent! You've mastered this topic.''
     \<and> feedback_for (89999 / 1000) = ''Great work! You have a strong understanding.''"
    by (simp add: feedback_for_def)
  from eval_loop_valid [OF assms(1) documented_chr_defined [OF assms(3)]]
  obtain rs' where e: "eval_loop 0 (zip (questions quiz) a) 0 [] =
      Inr (matches (questions quiz) a, rs')"
    by blast
  from assms(1) have n: "length (questions quiz) \<noteq> 0"
    using valid_quiz_length by fastforce
  from n assms(2) t show ?thesis
    by (simp add: evaluate_answers_def e py_div_def Let_def feedback_for_def)
qed

text \<open>
  The specification's example: correct indices \<open>[1, 1, 1]\<close>, answers \<open>[1, 0, 1]\<close>, two of
  three correct, score \<open>200 / 3\<close>, between 60 and 70, so the tier is `fair'.
\<close>

theorem evaluate_answers_score_and_tier_witness:
  "valid_quiz example_quiz
   \<and> length [1, 0, 1 :: int] = length (questions example_quiz)
   \<and> list_all documented_answer [1, 0, 1]
   \<and> (\<exists>ev. evaluate_answers (\<lambda>s. ''66.7%'') example_quiz [1, 0, 1] = Inr (EvalOk ev)
        \<and> correct ev = 2 \<and> total ev = 3 \<and> score ev = 200 / 3
        \<and> percentage ev = ''66.7%''
        \<and> feedback ev = ''Fair performance. Review the material and try again.'')"
proof -
  have l: "length [1, 0, 1 :: int] = length (questions example_quiz)"
    by (simp add: example_quiz_def)
  have c: "list_all documented_answer [1, 0, 1]"
    by (simp add: documented_answer_def)
  have m: "matches (questions example_quiz) [1, 0, 1] = 2"
    by (simp add: matches_def example_quiz_def)
  have n: "length (questions example_quiz) = 3"
    by (simp add: example_quiz_def)
  note t = evaluate_answers_score_and_tier
    [OF example_quiz_valid l c, where fmt = "\<lambda>s. ''66.7%''"]
  from t have 1: "\<exists>ev. evaluate_answers (\<lambda>s. ''66.7%'') example_quiz [1, 0, 1] = Inr (EvalOk ev)
        \<and> correct ev = 2 \<and> total ev = 3 \<and> score ev = 200 / 3
        \<and> percentage ev = ''66.7%''
        \<and> feedback ev = ''Fair performance. Review the material and try again.''"
    unfolding m n by clarsimp
  from example_quiz_valid l c 1 show ?thesis by (intro conjI)
qed

text \<open>
  Claim C1 as stated fails on an answer list outside the documented range: \<open>[-66, 1, 1]\<close>
  has the length of the quiz, and \<^verbatim>\<open>chr(65 + (-66))\<close> raises \<^verbatim>\<open>ValueError\<close> in the first
  round of the loop, so no score is returned.
\<close>

theorem evaluate_answers_counterexample:
  "valid_quiz example_quiz
   \<and> length [- 66, 1, 1 :: int] = length (questions example_quiz)
   \<and> evaluate_answers (\<lambda>s. []) example_quiz [- 66, 1, 1] = Inl ValueError"
proof -
  have "evaluate_answers (\<lambda>s. []) example_quiz [- 66, 1, 1] = Inl ValueError"
    by (simp add: evaluate_answers_def example_quiz_def chr_def)
  moreover have "length [- 66, 1, 1 :: int] = length (questions example_quiz)"
    by (simp add: example_quiz_def)
  ultimately show ?thesis
    using example_quiz_valid by simp
qed

text \<open>
  Claim C7. When the number of answers differs from the number of questions,
  \<^verbatim>\<open>evaluate_answers\<close> raises nothing and returns the error result, which carries the
  message and the score 0.
\<close>

theorem evaluate_answers_length_mismatch:
  "length user_answers \<noteq> length (questions quiz) \<Longrightarrow>
     evaluate_answers fmt quiz user_answers =
       Inr (EvalError ''Number of answers doesn't match number of questions'' 0)"
  by (simp add: evaluate_answers_def)

theorem evaluate_answers_length_mismatch_witness:
  "length [1, 0 :: int] \<noteq> length (questions example_quiz)
   \<and> evaluate_answers (\<lambda>s. []) example_quiz [1, 0] =
       Inr (EvalError ''Number of answers doesn't match number of questions'' 0)"
proof -
  have h: "length [1, 0 :: int] \<noteq> length (questions example_quiz)"
    by (simp add: example_quiz_def)
  from evaluate_answers_length_mismatch [OF h, where fmt = "\<lambda>s. []"] h show ?thesis
    by blast
qed

text \<open>
  Claim C10. A quiz that the \<open>Quiz\<close> constructor accepted has between 3 and 10
  questions, so the divisor \<open>len(quiz.questions)\<close> is not zero: neither
  \<^verbatim>\<open>evaluate_answers\<close> nor \<^verbatim>\<open>calculate_score\<close> raises \<^verbatim>\<open>ZeroDivisionError\<close>, whatever
  the answers, and \<^verbatim>\<open>calculate_score\<close> always returns a number.
\<close>

theorem quiz_divisor_nonzero:
  assumes "Quiz_new mid tp diff qs = Inr quiz"
  shows "real (length (questions quiz)) \<noteq> 0
     \<and> evaluate_answers fmt quiz a \<noteq> Inl ZeroDivisionError
     \<and> calculate_score quiz a \<noteq> Inl ZeroDivisionError
     \<and> (\<exists>s. calculate_score quiz a = Inr s)"
proof -
  from assms have n: "length (questions quiz) \<noteq> 0"
    using Quiz_new_length by fastforce
  have 1: "evaluate_answers fmt quiz a \<noteq> Inl ZeroDivisionError"
    using n
    by (auto simp: evaluate_answers_def py_div_def Let_def split: sum.splits prod.splits
        dest: eval_loop_error)
  have 2: "\<exists>s. calculate_score quiz a = Inr s"
    using n by (auto simp: calculate_score_def py_div_def Let_def)
  from n 1 2 show ?thesis by auto
qed

text \<open>
  The three-question quiz with three answers: both calls pass their length checks and
  reach the division.
\<close>

theorem quiz_divisor_nonzero_witness:
  "Quiz_new 1 ''Python Functions'' ''beginner'' (questions example_quiz) = Inr example_quiz
   \<and> length [1, 1, 1 :: int] = length (questions example_quiz)
   \<and> evaluate_answers (\<lambda>s. []) example_quiz [1, 1, 1] \<noteq> Inl ZeroDivisionError
   \<and> calculate_score example_quiz [1, 1, 1] \<noteq> Inl ZeroDivisionError"
proof -
  have h: "Quiz_new 1 ''Python Functions'' ''beginner'' (questions example_quiz)
             = Inr example_quiz"
    by (simp add: Quiz_new_def example_quiz_def)
  have l: "length [1, 1, 1 :: int] = length (questions example_quiz)"
    by (simp add: example_quiz_def)
  from quiz_divisor_nonzero [OF h, where fmt = "\<lambda>s. []" and a = "[1, 1, 1]"] h l
  show ?thesis by blast
qed

section \<open>Properties of the plan builder\<close>

lemma upt_3: "[0..<3] = [0, 1, 2::nat]"
  by (simp add: numeral_3_eq_3 upt_rec)

lemma placeholder_topics:
  "map (\<lambda>i. ''Topic '' @ str_nat (i + 1)) [0..<3] = [''Topic 1'', ''Topic 2'', ''Topic 3'']"
  unfolding upt_3 by (simp add: str_nat.simps)

text \<open>Every \<open>Module\<close> construction of the loop passes validation.\<close>

lemma build_modules_three:
  "build_modules 0 [t1, t2, t3] [] =
     Inr [module_of 1 t1 ACTIVE 0, module_of 2 t2 LOCKED 0, module_of 3 t3 LOCKED 0]"
  unfolding build_modules.simps placeholder_topics
  by (simp add: Module_new_def module_of_def)

lemma generate_beginner:
  "generate_learning_plan sk ''beginner'' now =
     Inr \<lparr>skill = sk, level = ''beginner'',
          modules = [module_of 1 (''Foundations of '' @ sk) ACTIVE 0,
                     module_of 2 (''Core Concepts in '' @ sk) LOCKED 0,
                     module_of 3 (''Practical Applications of '' @ sk) LOCKED 0],
          created = now\<rparr>"
  by (simp add: generate_learning_plan_def build_modules_three del: build_modules.simps)

lemma generate_intermediate:
  "generate_learning_plan sk ''intermediate'' now =
     Inr \<lparr>skill = sk, level = ''intermediate'',
          modules = [module_of 1 (''Advanced Concepts in '' @ sk) ACTIVE 0,
                     module_of 2 (''Real-World '' @ sk @ '' Projects'') LOCKED 0,
                     module_of 3 (''Mastering '' @ sk) LOCKED 0],
          created = now\<rparr>"
  by (simp add: generate_learning_plan_def build_modules_three del: build_modules.simps)

lemma generate_other:
  "lv \<noteq> ''beginner'' \<Longrightarrow> lv \<noteq> ''intermediate'' \<Longrightarrow>
   generate_learning_plan sk lv now =
     Inr \<lparr>skill = sk, level = lv,
          modules = [module_of 1 (''Expert-Level '' @ sk) ACTIVE 0,
                     module_of 2 (''Cutting-Edge '' @ sk @ '' Research'') LOCKED 0,
                     module_of 3 (sk @ '' Innovation & Leadership'') LOCKED 0],
          created = now\<rparr>"
  by (simp add: generate_learning_plan_def build_modules_three del: build_modules.simps)

lemma generate_initial:
  "\<exists>t1 t2 t3. generate_learning_plan sk lv now =
     Inr \<lparr>skill = sk, level = lv,
          modules = [module_of 1 t1 ACTIVE 0, module_of 2 t2 LOCKED 0, module_of 3 t3 LOCKED 0],
          created = now\<rparr>"
proof (cases "lv = ''beginner''")
  case True
  then show ?thesis using generate_beginner by blast
next
  case False
  note nb = this
  show ?thesis
  proof (cases "lv = ''intermediate''")
    case True
    then show ?thesis using generate_intermediate by blast
  next
    case False
    with nb show ?thesis using generate_other by blast
  qed
qed

text \<open>
  Claim C6. For every skill and every level string, \<^verbatim>\<open>generate_learning_plan\<close> returns
  a plan (no \<open>Module\<close> construction fails validation) with exactly three modules, ids 1 to 3,
  the first active and the other two locked, 4, 6 and 8 estimated hours, the three
  placeholder topics in each module, mastery 0, and titles from the beginner templates
  for level \<open>beginner\<close>, from the intermediate templates for level \<open>intermediate\<close>, and from
  the expert templates for any other level.
\<close>

theorem generate_learning_plan_shape:
  "\<exists>plan. generate_learning_plan target_skill starting_level now = Inr plan
     \<and> skill plan = target_skill \<and> level plan = starting_level \<and> created plan = now
     \<and> length (modules plan) = 3
     \<and> map id_m (modules plan) = [1, 2, 3]
     \<and> map status (modules plan) = [ACTIVE, LOCKED, LOCKED]
     \<and> map estimated_hours (modules plan) = [4, 6, 8]
     \<and> map mastery_score (modules plan) = [0, 0, 0]
     \<and> map topics (modules plan) = replicate 3 [''Topic 1'', ''Topic 2'', ''Topic 3'']
     \<and> list_all (\<lambda>m. length (topics m) = 3) (modules plan)
     \<and> map title (modules plan) =
         (if starting_level = ''beginner'' then
            [''Foundations of '' @ target_skill,
             ''Core Concepts in '' @ target_skill,
             ''Practical Applications of '' @ target_skill]
          else if starting_level = ''intermediate'' then
            [''Advanced Concepts in '' @ target_skill,
             ''Real-World '' @ target_skill @ '' Projects'',
             ''Mastering '' @ target_skill]
          else
            [''Expert-Level '' @ target_skill,
             ''Cutting-Edge '' @ target_skill @ '' Research'',
             target_skill @ '' Innovation & Leadership''])"
proof (cases "starting_level = ''beginner''")
  case True
  show ?thesis
    unfolding True generate_beginner
    by (simp add: module_of_def numeral_3_eq_3)
next
  case False
  note nb = this
  show ?thesis
  proof (cases "starting_level = ''intermediate''")
    case True
    show ?thesis
      unfolding True generate_intermediate
      by (simp add: module_of_def numeral_3_eq_3)
  next
    case False
    show ?thesis
      unfolding generate_other [OF nb False]
      using nb False by (simp add: module_of_def numeral_3_eq_3)
  qed
qed

text \<open>A level outside the enumerated set, here \<open>novice\<close>, gets the expert titles.\<close>

theorem generate_learning_plan_shape_witness:
  "\<exists>plan. generate_learning_plan ''Rust'' ''novice'' 0 = Inr plan
     \<and> map status (modules plan) = [ACTIVE, LOCKED, LOCKED]
     \<and> map estimated_hours (modules plan) = [4, 6, 8]
     \<and> map title (modules plan) =
          [''Expert-Level Rust'', ''Cutting-Edge Rust Research'',
           ''Rust Innovation & Leadership'']"
  using generate_learning_plan_shape [of "''Rust''" "''novice''" 0]
  by clarsimp

section \<open>Properties of module completion\<close>

text \<open>Without a matching id from \<open>idx\<close> on, the loop leaves the list as it is.\<close>

lemma complete_loop_nomatch:
  "\<forall>j. idx \<le> j \<and> j < length ms \<longrightarrow> id_m (ms ! j) \<noteq> mid \<Longrightarrow>
     complete_loop idx ms mid sc = ms"
proof (induction idx ms mid sc rule: complete_loop.induct)
  case (1 idx ms mid sc)
  show ?case
  proof (cases "idx < length ms")
    case True
    with "1.prems" have ne: "id_m (ms ! idx) \<noteq> mid" by simp
    from "1.prems" have "\<forall>j. idx + 1 \<le> j \<and> j < length ms \<longrightarrow> id_m (ms ! j) \<noteq> mid"
      by simp
    from "1.IH" [OF True ne this] True ne show ?thesis
      by (simp add: complete_loop.simps [of idx ms mid sc])
  next
    case False
    then show ?thesis by (simp add: complete_loop.simps [of idx ms mid sc])
  qed
qed

text \<open>With the first matching id at \<open>i\<close>, the loop rewrites positions \<open>i\<close> and \<open>i + 1\<close>.\<close>

lemma complete_loop_first:
  assumes "idx \<le> i" and "i < length ms" and "id_m (ms ! i) = mid"
    and "\<forall>j. idx \<le> j \<and> j < i \<longrightarrow> id_m (ms ! j) \<noteq> mid"
  shows "complete_loop idx ms mid sc =
     (let ms1 = ms[i := (ms ! i)\<lparr>status := COMPLETED, mastery_score := sc\<rparr>]
      in if i + 1 < length ms1
         then ms1[i + 1 := (ms1 ! (i + 1))\<lparr>status := ACTIVE\<rparr>]
         else ms1)"
  using assms
proof (induction idx ms mid sc rule: complete_loop.induct)
  case (1 idx ms mid sc)
  from "1.prems" have lt: "idx < length ms" by simp
  show ?case
  proof (cases "idx = i")
    case True
    with "1.prems" lt show ?thesis
      by (simp add: complete_loop.simps [of i ms mid sc])
  next
    case False
    with "1.prems" have ne: "id_m (ms ! idx) \<noteq> mid" and le: "idx + 1 \<le> i" by simp_all
    from "1.prems" have r: "\<forall>j. idx + 1 \<le> j \<and> j < i \<longrightarrow> id_m (ms ! j) \<noteq> mid" by simp
    from "1.IH" [OF lt ne le "1.prems"(2) "1.prems"(3) r] lt ne show ?thesis
      by (simp add: complete_loop.simps [of idx ms mid sc])
  qed
qed

text \<open>
  Claim C4. For every plan, module id and score: when no module has the id,
  \<^verbatim>\<open>complete_module\<close> returns the plan unchanged and raises nothing. When \<open>i\<close> is the
  position of the first module with the id, the call keeps the number of modules, turns
  that module's status to \<open>completed\<close> and its mastery score to the given score, turns the
  status of the module at \<open>i + 1\<close>, if there is one, to \<open>active\<close>, and leaves every other
  module, before \<open>i\<close> as well as after \<open>i + 1\<close>, as it was: one successor is unlocked and
  nothing cascades. The other fields of the plan are untouched.
\<close>

theorem complete_module_effect:
  "(mid \<notin> id_m ` set (modules plan) \<longrightarrow> complete_module plan mid sc = plan)
   \<and> (\<forall>i. i < length (modules plan) \<and> id_m (modules plan ! i) = mid
          \<and> (\<forall>j<i. id_m (modules plan ! j) \<noteq> mid) \<longrightarrow>
        length (modules (complete_module plan mid sc)) = length (modules plan)
        \<and> modules (complete_module plan mid sc) ! i =
            (modules plan ! i)\<lparr>status := COMPLETED, mastery_score := sc\<rparr>
        \<and> (i + 1 < length (modules plan) \<longrightarrow>
             modules (complete_module plan mid sc) ! (i + 1) =
               (modules plan ! (i + 1))\<lparr>status := ACTIVE\<rparr>)
        \<and> (\<forall>j<length (modules plan). j \<noteq> i \<and> j \<noteq> i + 1 \<longrightarrow>
             modules (complete_module plan mid sc) ! j = modules plan ! j))
   \<and> skill (complete_module plan mid sc) = skill plan
   \<and> level (complete_module plan mid sc) = level plan
   \<and> created (complete_module plan mid sc) = created plan"
proof -
  have a: "mid \<notin> id_m ` set (modules plan) \<longrightarrow> complete_module plan mid sc = plan"
  proof
    assume "mid \<notin> id_m ` set (modules plan)"
    then have "\<forall>j. 0 \<le> j \<and> j < length (modules plan) \<longrightarrow> id_m (modules plan ! j) \<noteq> mid"
      by (metis image_eqI nth_mem)
    from complete_loop_nomatch [OF this] show "complete_module plan mid sc = plan"
      by (simp add: complete_module_def)
  qed
  have b: "\<forall>i. i < length (modules plan) \<and> id_m (modules plan ! i) = mid
          \<and> (\<forall>j<i. id_m (modules plan ! j) \<noteq> mid) \<longrightarrow>
        length (modules (complete_module plan mid sc)) = length (modules plan)
        \<and> modules (complete_module plan mid sc) ! i =
            (modules plan ! i)\<lparr>status := COMPLETED, mastery_score := sc\<rparr>
        \<and> (i + 1 < length (modules plan) \<longrightarrow>
             modules (complete_module plan mid sc) ! (i + 1) =
               (modules plan ! (i + 1))\<lparr>status := ACTIVE\<rparr>)
        \<and> (\<forall>j<length (modules plan). j \<noteq> i \<and> j \<noteq> i + 1 \<longrightarrow>
             modules (complete_module plan mid sc) ! j = modules plan ! j)"
  proof (intro allI impI)
    fix i
    assume h: "i < length (modules plan) \<and> id_m (modules plan ! i) = mid
          \<and> (\<forall>j<i. id_m (modules plan ! j) \<noteq> mid)"
    then have "complete_loop 0 (modules plan) mid sc =
     (let ms1 = (modules plan)[i := (modules plan ! i)\<lparr>status := COMPLETED, mastery_score := sc\<rparr>]
      in if i + 1 < length ms1
         then ms1[i + 1 := (ms1 ! (i + 1))\<lparr>status := ACTIVE\<rparr>]
         else ms1)"
      by (intro complete_loop_first) simp_all
    with h show "length (modules (complete_module plan mid sc)) = length (modules plan)
        \<and> modules (complete_module plan mid sc) ! i =
            (modules plan ! i)\<lparr>status := COMPLETED, mastery_score := sc\<rparr>
        \<and> (i + 1 < length (modules plan) \<longrightarrow>
             modules (complete_module plan mid sc) ! (i + 1) =
               (modules plan ! (i + 1))\<lparr>status := ACTIVE\<rparr>)
        \<and> (\<forall>j<length (modules plan). j \<noteq> i \<and> j \<noteq> i + 1 \<longrightarrow>
             modules (complete_module plan mid sc) ! j = modules plan ! j)"
      by (simp add: complete_module_def Let_def nth_list_update)
  qed
  from a b show ?thesis by (simp add: complete_module_def)
qed

text \<open>
  The specification's example: in a three-module plan whose second module is active,
  completing id 2 with score 85 completes module 2, activates module 3 and leaves
  module 1 alone; completing the unknown id 7 changes nothing.
\<close>

theorem complete_module_effect_witness:
  "modules (complete_module example_plan 2 85) =
      [module_of 1 ''Foundations of Python'' COMPLETED 90,
       module_of 2 ''Core Concepts in Python'' COMPLETED 85,
       module_of 3 ''Practical Applications of Python'' ACTIVE 0]
   \<and> complete_module example_plan 7 50 = example_plan"
proof -
  let ?p = "complete_module example_plan 2 85"
  have l: "length (modules example_plan) = 3" by (simp add: example_plan_def)
  have h: "Suc 0 < length (modules example_plan) \<and> id_m (modules example_plan ! Suc 0) = 2
      \<and> (\<forall>j<Suc 0. id_m (modules example_plan ! j) \<noteq> 2)"
    by (simp add: example_plan_def module_of_def)
  note t = conjunct1 [OF conjunct2 [OF complete_module_effect [of 2 example_plan 85]]]
  note u = t [rule_format, OF h]
  from u have len: "length (modules ?p) = 3"
    unfolding l by (rule conjunct1)
  from u have m1: "modules ?p ! Suc 0 =
      (modules example_plan ! Suc 0)\<lparr>status := COMPLETED, mastery_score := 85\<rparr>"
    by (rule conjunct1 [OF conjunct2])
  from u have m2: "modules ?p ! 2 = (modules example_plan ! 2)\<lparr>status := ACTIVE\<rparr>"
    unfolding l by (simp add: numeral_2_eq_2)
  from u have "\<forall>j<3. j \<noteq> Suc 0 \<and> j \<noteq> Suc 0 + 1 \<longrightarrow>
      modules ?p ! j = modules example_plan ! j"
    unfolding l by (rule conjunct2 [OF conjunct2 [OF conjunct2]])
  then have m0: "modules ?p ! 0 = modules example_plan ! 0"
    by simp
  have "modules ?p = [modules ?p ! 0, modules ?p ! Suc 0, modules ?p ! 2]"
    using len by (auto simp: list_eq_iff_nth_eq less_Suc_eq numeral_3_eq_3 numeral_2_eq_2)
  then have 1: "modules ?p = [module_of 1 ''Foundations of Python'' COMPLETED 90,
       module_of 2 ''Core Concepts in Python'' COMPLETED 85,
       module_of 3 ''Practical Applications of Python'' ACTIVE 0]"
    unfolding m0 m1 m2 by (simp add: example_plan_def module_of_def)
  have "7 \<notin> id_m ` set (modules example_plan)"
    by (simp add: example_plan_def module_of_def)
  with conjunct1 [OF complete_module_effect [of 7 example_plan 50]]
  have 2: "complete_module example_plan 7 50 = example_plan"
    by (rule mp)
  from 1 2 show ?thesis by (rule conjI)
qed

section \<open>Normal progression through a generated plan\<close>

lemma progress_done: "get_active_module plan = None \<Longrightarrow> progress plan scs = plan"
  by (cases scs) simp_all

lemma progress_step1:
  "progress \<lparr>skill = sk, level = lv,
             modules = [module_of 1 t1 ACTIVE 0, module_of 2 t2 LOCKED 0, module_of 3 t3 LOCKED 0],
             created = now\<rparr> (a # scs) =
   progress \<lparr>skill = sk, level = lv,
             modules = [module_of 1 t1 COMPLETED a, module_of 2 t2 ACTIVE 0,
                        module_of 3 t3 LOCKED 0],
             created = now\<rparr> scs"
  by (simp add: module_of_def get_active_module_def complete_module_def complete_loop.simps)

lemma progress_step2:
  "progress \<lparr>skill = sk, level = lv,
             modules = [module_of 1 t1 COMPLETED a, module_of 2 t2 ACTIVE 0,
                        module_of 3 t3 LOCKED 0],
             created = now\<rparr> (b # scs) =
   progress \<lparr>skill = sk, level = lv,
             modules = [module_of 1 t1 COMPLETED a, module_of 2 t2 COMPLETED b,
                        module_of 3 t3 ACTIVE 0],
             created = now\<rparr> scs"
  by (simp add: module_of_def get_active_module_def complete_module_def complete_loop.simps)

lemma progress_step3:
  "progress \<lparr>skill = sk, level = lv,
             modules = [module_of 1 t1 COMPLETED a, module_of 2 t2 COMPLETED b,
                        module_of 3 t3 ACTIVE 0],
             created = now\<rparr> (c # scs) =
   \<lparr>skill = sk, level = lv,
    modules = [module_of 1 t1 COMPLETED a, module_of 2 t2 COMPLETED b,
               module_of 3 t3 COMPLETED c],
    created = now\<rparr>"
  by (simp add: module_of_def get_active_module_def complete_module_def complete_loop.simps
      progress_done)

lemma progress_statuses:
  "map status (modules (progress
      \<lparr>skill = sk, level = lv,
       modules = [module_of 1 t1 ACTIVE 0, module_of 2 t2 LOCKED 0, module_of 3 t3 LOCKED 0],
       created = now\<rparr> scs)) =
     replicate (min (length scs) 3) COMPLETED @
       (if length scs < 3 then ACTIVE # replicate (2 - length scs) LOCKED else [])"
proof (cases scs)
  case Nil
  then show ?thesis by (simp add: module_of_def numeral_2_eq_2)
next
  case c1: (Cons a s1)
  show ?thesis
  proof (cases s1)
    case n1: Nil
    show ?thesis
      unfolding c1 n1 progress_step1 progress.simps(1)
      by (simp add: module_of_def)
  next
    case c2: (Cons b s2)
    show ?thesis
    proof (cases s2)
      case n2: Nil
      show ?thesis
        unfolding c1 c2 n2 progress_step1 progress_step2 progress.simps(1)
        by (simp add: module_of_def)
    next
      case c3: (Cons c s3)
      show ?thesis
        unfolding c1 c2 c3 progress_step1 progress_step2 progress_step3
        by (simp add: module_of_def numeral_3_eq_3)
    qed
  qed
qed

lemma active_count_statuses:
  "active_count plan = length (filter (\<lambda>s. s = ACTIVE) (map status (modules plan)))"
  by (simp add: active_count_def filter_map comp_def)

text \<open>
  Claim C5. In a plan that \<^verbatim>\<open>generate_learning_plan\<close> produced, after any sequence of
  \<^verbatim>\<open>complete_module\<close> calls that each aim at the id of the currently active module, the
  statuses are a run of \<open>completed\<close>, then one \<open>active\<close>, then \<open>locked\<close> ones: exactly one module
  is active while fewer than three calls were made, none once the last module is
  completed, and never more than one.
\<close>

theorem normal_progression_one_active:
  assumes "generate_learning_plan sk lv now = Inr plan"
  shows "map status (modules (progress plan scs)) =
           replicate (min (length scs) 3) COMPLETED @
             (if length scs < 3 then ACTIVE # replicate (2 - length scs) LOCKED else [])
     \<and> active_count (progress plan scs) = (if length scs < 3 then 1 else 0)
     \<and> active_count (progress plan scs) \<le> 1"
proof -
  from generate_initial [of sk lv now] assms obtain t1 t2 t3 where
    p: "plan = \<lparr>skill = sk, level = lv,
          modules = [module_of 1 t1 ACTIVE 0, module_of 2 t2 LOCKED 0, module_of 3 t3 LOCKED 0],
          created = now\<rparr>"
    by auto
  have s: "map status (modules (progress plan scs)) =
           replicate (min (length scs) 3) COMPLETED @
             (if length scs < 3 then ACTIVE # replicate (2 - length scs) LOCKED else [])"
    unfolding p by (rule progress_statuses)
  have "active_count (progress plan scs) = (if length scs < 3 then 1 else 0)"
    unfolding active_count_statuses s by simp
  with s show ?thesis by simp
qed

text \<open>A beginner plan for Python, after zero, two and three completions.\<close>

theorem normal_progression_one_active_witness:
  "\<exists>plan. generate_learning_plan ''Python'' ''beginner'' 0 = Inr plan
     \<and> active_count (progress plan []) = 1
     \<and> active_count (progress plan [85, 90]) = 1
     \<and> active_count (progress plan [85, 90, 70]) = 0"
proof -
  obtain plan where g: "generate_learning_plan ''Python'' ''beginner'' 0 = Inr plan"
    by (simp add: generate_beginner)
  from normal_progression_one_active [OF g, of "[]"]
  have 0: "active_count (progress plan []) = 1" by simp
  from normal_progression_one_active [OF g, of "[85, 90]"]
  have 1: "active_count (progress plan [85, 90]) = 1" by simp
  from normal_progression_one_active [OF g, of "[85, 90, 70]"]
  have 2: "active_count (progress plan [85, 90, 70]) = 0" by simp
  from g 0 1 2 show ?thesis by (intro exI conjI)
qed

section \<open>Properties of question validation\<close>

text \<open>
  Claim C3, as amended. Constructing a \<open>QuizQuestion\<close> succeeds exactly when there are
  between 2 and 4 options and \<open>0 \<le> correct_index < 4\<close>, and fails with a
  \<^verbatim>\<open>ValidationError\<close> naming at least one field otherwise. \<open>correct_index = 4\<close> with four
  options fails on \<open>correct_index\<close>. The index is not compared with the number of options:
  \<open>correct_index = 3\<close> with two options is accepted.
\<close>

theorem QuizQuestion_new_accepts:
  "(case QuizQuestion_new q opts ci expl of
      Inr qq \<Rightarrow>
        2 \<le> length opts \<and> length opts \<le> 4 \<and> 0 \<le> ci \<and> ci < 4
        \<and> qq = \<lparr>question = q, options = opts, correct_index = ci, explanation = expl\<rparr>
    | Inl e \<Rightarrow>
        \<not> (2 \<le> length opts \<and> length opts \<le> 4 \<and> 0 \<le> ci \<and> ci < 4)
        \<and> (\<exists>fs. fs \<noteq> [] \<and> e = ValidationError fs))
   \<and> QuizQuestion_new q [oa, ob, oc, od] 4 expl = Inl (ValidationError [''correct_index''])
   \<and> QuizQuestion_new q [oa, ob] 3 expl =
       Inr \<lparr>question = q, options = [oa, ob], correct_index = 3, explanation = expl\<rparr>"
  by (auto simp: QuizQuestion_new_def Let_def)

text \<open>Index 4 with four options is refused; index 2 with three options is accepted.\<close>

theorem QuizQuestion_new_accepts_witness:
  "QuizQuestion_new ''q'' [''a'', ''b'', ''c'', ''d''] 4 None =
     Inl (ValidationError [''correct_index''])
   \<and> (\<exists>qq. QuizQuestion_new ''q'' [''a'', ''b'', ''c''] 2 None = Inr qq)"
proof -
  from QuizQuestion_new_accepts [where q = "''q''" and opts = "[''a'', ''b'', ''c'']"
      and ci = 2 and expl = None]
  have "\<exists>qq. QuizQuestion_new ''q'' [''a'', ''b'', ''c''] 2 None = Inr qq"
    by (cases "QuizQuestion_new ''q'' [''a'', ''b'', ''c''] 2 None") simp_all
  with QuizQuestion_new_accepts [where q = "''q''" and expl = None and oa = "''a''"
      and ob = "''b''" and oc = "''c''" and od = "''d''"]
  show ?thesis by simp
qed

text \<open>
  Claim C3 as stated fails: with two options, \<open>correct_index = 3\<close> references no option,
  and the construction succeeds.
\<close>

theorem QuizQuestion_new_counterexample:
  "QuizQuestion_new ''q'' [''a'', ''b''] 3 None =
     Inr \<lparr>question = ''q'', options = [''a'', ''b''], correct_index = 3, explanation = None\<rparr>
   \<and> \<not> (3 < int (length [''a'', ''b'']))"
  by (simp add: QuizQuestion_new_def)


section \<open>Properties of profile aggregation\<close>

lemma every_score_concat:
  "concat (map (\<lambda>(k, skill_data). map score_c (modules_c skill_data)) al) = every_score al"
  by (induction al rule: every_score.induct) simp_all

lemma update_absent: "map_of al k = None \<Longrightarrow> AList.update k v al = al @ [(k, v)]"
  by (induction al) (auto split: if_splits)

lemma every_score_append: "every_score (al @ bl) = every_score al @ every_score bl"
  by (induction al rule: every_score.induct) simp_all

lemma every_score_update_sum:
  "map_of al k = Some e \<Longrightarrow>
     sum_list (every_score (AList.update k e' al)) + sum_list (map score_c (modules_c e)) =
     sum_list (every_score al) + sum_list (map score_c (modules_c e'))"
  by (induction al rule: every_score.induct) (auto split: if_splits)

lemma every_score_update_length:
  "map_of al k = Some e \<Longrightarrow>
     length (every_score (AList.update k e' al)) + length (modules_c e) =
     length (every_score al) + length (modules_c e')"
  by (induction al rule: every_score.induct) (auto split: if_splits)

lemma update_keys:
  "map fst (AList.update k v al) = (if k \<in> set (map fst al) then map fst al else map fst al @ [k])"
  by (induction al) auto

text \<open>
  Claim C2. For every profile, skill, module title and score, \<^verbatim>\<open>update_skill_progress\<close>
  returns (it raises nothing) a profile in which the record \<open>{title, score, completed_at}\<close>
  is appended to the skill's module list, the list of a skill that was absent starting
  empty; the skill's \<open>avg_score\<close> is the arithmetic mean of all scores under the skill,
  the new one included; \<open>total_modules_completed\<close> is one more; the scores of the whole
  profile are the old ones and the new one, and \<open>overall_avg_score\<close> is their mean, taken
  after the append. A new skill is added at the end of the dictionary, the entries of the
  other skills are unchanged, and \<open>last_updated\<close> is the clock reading.
\<close>

theorem update_skill_progress_effect:
  "\<exists>p'. update_skill_progress p sk module_title sc stamp now = Inr p'
     \<and> records_of p' sk =
         records_of p sk @ [\<lparr>title_c = module_title, score_c = sc, completed_at = stamp\<rparr>]
     \<and> (\<exists>e. map_of (skills p') sk = Some e
           \<and> avg_score e = sum_list (map score_c (records_of p' sk)) / real (length (records_of p' sk))
           \<and> avg_score e = (sum_list (map score_c (records_of p sk)) + sc) / (real (length (records_of p sk)) + 1))
     \<and> total_modules_completed p' = total_modules_completed p + 1
     \<and> sum_list (every_score (skills p')) = sum_list (every_score (skills p)) + sc
     \<and> length (every_score (skills p')) = length (every_score (skills p)) + 1
     \<and> overall_avg_score p' =
         sum_list (every_score (skills p')) / real (length (every_score (skills p')))
     \<and> overall_avg_score p' =
         (sum_list (every_score (skills p)) + sc) / (real (length (every_score (skills p))) + 1)
     \<and> map fst (skills p') =
         (if sk \<in> set (map fst (skills p)) then map fst (skills p) else map fst (skills p) @ [sk])
     \<and> (\<forall>k. k \<noteq> sk \<longrightarrow> map_of (skills p') k = map_of (skills p) k)
     \<and> user_id p' = user_id p \<and> last_updated p' = now"
proof -
  define skills1 where "skills1 =
            (if map_of (skills p) sk = None
             then AList.update sk \<lparr>modules_c = [], avg_score = 0\<rparr> (skills p)
             else skills p)"
  define entry where "entry = (case map_of (skills p) sk of None \<Rightarrow> \<lparr>modules_c = [], avg_score = 0\<rparr> | Some e \<Rightarrow> e)"
  define new where "new = \<lparr>title_c = module_title, score_c = sc, completed_at = stamp\<rparr>"
  define entry1 where "entry1 = entry\<lparr>modules_c := modules_c entry @ [new]\<rparr>"
  define avg where "avg = sum_list (map score_c (modules_c entry1)) / real (length (modules_c entry1))"
  define skills2 where "skills2 = AList.update sk (entry1\<lparr>avg_score := avg\<rparr>) skills1"
  define p' where "p' = p\<lparr>skills := skills2,
                                total_modules_completed := total_modules_completed p + 1,
                                last_updated := now,
                                overall_avg_score :=
                                   sum_list (every_score skills2) / real (length (every_score skills2))\<rparr>"
  have m1: "map_of skills1 sk = Some entry"
    by (auto simp: skills1_def entry_def update_conv')
  have old: "modules_c entry = records_of p sk"
    by (simp add: entry_def records_of_def split: option.splits)
  have es1: "every_score skills1 = every_score (skills p)"
    by (simp add: skills1_def update_absent every_score_append)
  have k1: "map fst skills1 = (if sk \<in> set (map fst (skills p)) then map fst (skills p) else map fst (skills p) @ [sk])"
    by (auto simp: skills1_def update_keys map_of_eq_None_iff)
  have o1: "\<forall>k. k \<noteq> sk \<longrightarrow> map_of skills1 k = map_of (skills p) k"
    by (simp add: skills1_def update_conv')
  have ne: "every_score skills2 \<noteq> []"
  proof -
    from every_score_update_length [OF m1, of "entry1\<lparr>avg_score := avg\<rparr>"]
    have "length (every_score skills2) > 0"
      by (simp add: skills2_def entry1_def)
    then show ?thesis by simp
  qed
  have ne1: "modules_c entry1 \<noteq> []"
    by (simp add: entry1_def)
  have r: "update_skill_progress p sk module_title sc stamp now = Inr p'"
    unfolding update_skill_progress_def skills1_def [symmetric]
    by (simp add: m1 Let_def py_div_def new_def [symmetric] entry1_def [symmetric]
        avg_def [symmetric] skills2_def [symmetric] every_score_concat ne ne1 p'_def)
  have m2: "map_of (skills p') sk = Some (entry1\<lparr>avg_score := avg\<rparr>)"
    by (simp add: p'_def skills2_def update_conv')
  have rec: "records_of p' sk = records_of p sk @ [new]"
    by (simp add: records_of_def m2 entry1_def old)
  have a1: "avg = sum_list (map score_c (records_of p' sk)) / real (length (records_of p' sk))"
    by (simp add: avg_def rec entry1_def old)
  have a2: "avg = (sum_list (map score_c (records_of p sk)) + sc) / (real (length (records_of p sk)) + 1)"
    by (simp add: avg_def entry1_def old new_def add.commute)
  have s2: "sum_list (every_score skills2) = sum_list (every_score (skills p)) + sc"
    using every_score_update_sum [OF m1, of "entry1\<lparr>avg_score := avg\<rparr>"]
    by (simp add: skills2_def entry1_def es1 new_def)
  have l2: "length (every_score skills2) = length (every_score (skills p)) + 1"
    using every_score_update_length [OF m1, of "entry1\<lparr>avg_score := avg\<rparr>"]
    by (simp add: skills2_def entry1_def es1)
  have ov1: "overall_avg_score p' = sum_list (every_score (skills p')) / real (length (every_score (skills p')))"
    by (simp add: p'_def)
  have ov2: "overall_avg_score p' = (sum_list (every_score (skills p)) + sc) / (real (length (every_score (skills p))) + 1)"
    by (simp add: p'_def s2 l2 add.commute)
  have k2: "map fst (skills p') = (if sk \<in> set (map fst (skills p)) then map fst (skills p) else map fst (skills p) @ [sk])"
    by (auto simp: p'_def skills2_def update_keys k1)
  have o2: "\<forall>k. k \<noteq> sk \<longrightarrow> map_of (skills p') k = map_of (skills p) k"
    using o1 by (simp add: p'_def skills2_def update_conv')
  have misc: "total_modules_completed p' = total_modules_completed p + 1 \<and> user_id p' = user_id p \<and> last_updated p' = now"
    by (simp add: p'_def)
  have s3: "sum_list (every_score (skills p')) = sum_list (every_score (skills p)) + sc"
    using s2 by (simp add: p'_def)
  have l3: "length (every_score (skills p')) = length (every_score (skills p)) + 1"
    using l2 by (simp add: p'_def)
  from r rec m2 a1 a2 ov1 ov2 k2 o2 misc s3 l3 show ?thesis
    unfolding new_def by (intro exI [of _ p']) simp
qed


text \<open>
  The specification's example: a second completion, scored 90, under a skill that holds
  one completion scored 80 gives \<open>avg_score = 85\<close>, two modules in total and an overall
  average of 85.
\<close>

theorem update_skill_progress_effect_witness:
  "update_skill_progress (UserProfile_fresh ''demo_user'' 0) ''Python'' ''Fundamentals'' 80
      ''2025-01-01T10:00:00'' 1 = Inr profile_one
   \<and> (\<exists>p2. update_skill_progress profile_one ''Python'' ''Functions'' 90
               ''2025-01-02T10:00:00'' 2 = Inr p2
          \<and> (\<exists>e. map_of (skills p2) ''Python'' = Some e \<and> avg_score e = 85)
          \<and> total_modules_completed p2 = 2
          \<and> overall_avg_score p2 = 85)"
proof -
  have 1: "update_skill_progress (UserProfile_fresh ''demo_user'' 0) ''Python''
      ''Fundamentals'' 80 ''2025-01-01T10:00:00'' 1 = Inr profile_one"
    by (simp add: update_skill_progress_def UserProfile_fresh_def profile_one_def py_div_def)
  have 2: "\<exists>p2. update_skill_progress profile_one ''Python'' ''Functions'' 90
               ''2025-01-02T10:00:00'' 2 = Inr p2
          \<and> (\<exists>e. map_of (skills p2) ''Python'' = Some e \<and> avg_score e = 85)
          \<and> total_modules_completed p2 = 2
          \<and> overall_avg_score p2 = 85"
    using update_skill_progress_effect [of profile_one "''Python''" "''Functions''" 90
        "''2025-01-02T10:00:00''" 2]
    by (clarsimp simp: profile_one_def records_of_def)
  from 1 2 show ?thesis by (rule conjI)
qed

section \<open>Properties of the profile path\<close>

lemma split_on_nosep: "c \<notin> set s \<Longrightarrow> split_on c s = [s]"
  by (induction s) auto

lemma split_on_prefix: "c \<notin> set a \<Longrightarrow> split_on c (a @ c # rest) = a # split_on c rest"
  by (induction a) auto

lemma storage_parts: "parts_p (parse_path storage_path) = [''data'', ''user_profiles'']"
  by (simp add: parse_path_def storage_path_def)

lemma get_profile_path_plain:
  assumes "CHR ''/'' \<notin> set uid"
  shows "get_profile_path uid =
     \<lparr>root_p = [], parts_p = [''data'', ''user_profiles'', uid @ ''.json'']\<rparr>"
proof -
  let ?f = "uid @ ''.json''"
  from assms have nf: "CHR ''/'' \<notin> set ?f" by simp
  then have t: "take 1 ?f \<noteq> ''/''" by (cases uid) auto
  have j: "posix_join storage_path ?f = ''data'' @ CHR ''/'' # (''user_profiles'' @ CHR ''/'' # ?f)"
    using t by (simp add: posix_join_def storage_path_def)
  have s: "split_on CHR ''/'' (posix_join storage_path ?f) = [''data'', ''user_profiles'', ?f]"
  proof -
    have a: "CHR ''/'' \<notin> set ''data''" and b: "CHR ''/'' \<notin> set ''user_profiles''"
      by simp_all
    show ?thesis
      unfolding j split_on_prefix [OF a] split_on_prefix [OF b] split_on_nosep [OF nf] ..
  qed
  have d: "?f \<noteq> [] \<and> ?f \<noteq> ''.''" by (cases uid) auto
  have h: "take 1 (posix_join storage_path ?f) \<noteq> ''/''" unfolding j by simp
  show ?thesis
    unfolding get_profile_path_def parse_path_def using h d by (simp add: s)
qed

text \<open>
  Claim C9, as amended. For every user id that contains no \<open>/\<close>, \<^verbatim>\<open>_get_profile_path\<close>
  yields the relative path \<open>data/user_profiles/<user_id>.json\<close>, which lies inside the
  storage directory, and two different such ids get different paths. The mapping does
  not sanitise the id, and nothing is promised for an id that contains \<open>/\<close>.
\<close>

theorem get_profile_path_slash_free:
  assumes "CHR ''/'' \<notin> set uid"
  shows "get_profile_path uid =
           \<lparr>root_p = [], parts_p = [''data'', ''user_profiles'', uid @ ''.json'']\<rparr>
     \<and> inside_storage (get_profile_path uid)
     \<and> (\<forall>uid'. CHR ''/'' \<notin> set uid' \<and> uid' \<noteq> uid \<longrightarrow> get_profile_path uid' \<noteq> get_profile_path uid)"
proof -
  note p = get_profile_path_plain [OF assms]
  have d: "uid @ ''.json'' \<noteq> ''..''" by (cases uid) auto
  have i: "inside_storage (get_profile_path uid)"
    unfolding p inside_storage_def storage_parts using d by simp
  have "\<forall>uid'. CHR ''/'' \<notin> set uid' \<and> uid' \<noteq> uid \<longrightarrow> get_profile_path uid' \<noteq> get_profile_path uid"
    unfolding p by (auto simp: get_profile_path_plain)
  with p i show ?thesis by simp
qed

text \<open>The ids \<open>demo_user\<close> and \<open>default_user\<close>, which the repository itself uses.\<close>

theorem get_profile_path_slash_free_witness:
  "CHR ''/'' \<notin> set ''demo_user''
   \<and> get_profile_path ''demo_user'' =
       \<lparr>root_p = [], parts_p = [''data'', ''user_profiles'', ''demo_user.json'']\<rparr>
   \<and> inside_storage (get_profile_path ''demo_user'')
   \<and> get_profile_path ''default_user'' \<noteq> get_profile_path ''demo_user''"
proof -
  have h: "CHR ''/'' \<notin> set ''demo_user''" by simp
  have g: "CHR ''/'' \<notin> set ''default_user'' \<and> ''default_user'' \<noteq> ''demo_user''" by simp
  note t = get_profile_path_slash_free [OF h]
  from t have 1: "get_profile_path ''demo_user'' =
       \<lparr>root_p = [], parts_p = [''data'', ''user_profiles'', ''demo_user.json'']\<rparr>"
    by simp
  from t have 2: "inside_storage (get_profile_path ''demo_user'')"
    by (rule conjunct1 [OF conjunct2])
  from conjunct2 [OF conjunct2 [OF t], rule_format, OF g]
  have 3: "get_profile_path ''default_user'' \<noteq> get_profile_path ''demo_user''" .
  from h 1 2 3 show ?thesis by (intro conjI)
qed

text \<open>
  Claim C9 as stated fails on ids that contain \<open>/\<close>: the distinct ids \<open>a\<close> and \<open>./a\<close> share
  one path, and the path of \<open>../../etc/passwd\<close> leads out of the storage directory.
\<close>

theorem get_profile_path_counterexample: "''a'' \<noteq> ''./a'' \<and> get_profile_path ''a'' = get_profile_path ''./a''
   \<and> \<not> inside_storage (get_profile_path ''../../etc/passwd'')"
  by (simp add: get_profile_path_def posix_join_def storage_path_def parse_path_def inside_storage_def)

section \<open>Properties of saving and loading\<close>

lemma completion_roundtrip: "completion_of_json (completion_to_json c) = Some c"
  by (simp add: completion_of_json_def completion_to_json_def get_key_def as_str_def as_float_def)

lemma completions_roundtrip:
  "those (map (completion_of_json \<circ> completion_to_json) cs) = Some cs"
  by (induction cs) (simp_all add: completion_roundtrip)

lemma skill_roundtrip: "skill_of_json (skill_to_json e) = Some e"
  by (simp add: skill_of_json_def skill_to_json_def get_key_def as_list_def as_float_def
      completions_roundtrip)

lemma skills_roundtrip:
  "skills_of_json (JObj (map (\<lambda>(k, e). (k, skill_to_json e)) al)) = Some al"
proof -
  have "those (map (\<lambda>(k, v). map_option (Pair k) (skill_of_json v))
          (map (\<lambda>(k, e). (k, skill_to_json e)) al)) = Some al"
    by (induction al) (auto simp: skill_roundtrip)
  then show ?thesis by (simp add: skills_of_json_def)
qed

lemma profile_roundtrip:
  assumes "parse_dt (str_dt (last_updated p)) = Some t"
  shows "UserProfile_of_json parse_dt now (model_dump_json str_dt p) = Inr (p\<lparr>last_updated := t\<rparr>)"
  using assms
  by (simp add: UserProfile_of_json_def model_dump_json_def get_key_def field_or_def as_str_def
      as_int_def as_float_def skills_roundtrip)

text \<open>
  Claim C8. When the medium lets \<^verbatim>\<open>_save_profile\<close> write the profile's file, the save
  completes, and \<^verbatim>\<open>_load_profile\<close> under the same user id then returns a profile with the
  same \<open>user_id\<close>, \<open>skills\<close> (module records and averages), \<open>total_modules_completed\<close>
  and \<open>overall_avg_score\<close>; its \<open>last_updated\<close> is what the written timestamp text reads
  back as.
\<close>

theorem save_load_roundtrip:
  assumes "writable st (get_profile_path (user_id p))"
    and "parse_dt (str_dt (last_updated p)) = Some t"
  shows "\<exists>st'. save_profile str_dt st p = Inr st'
     \<and> load_profile parse_dt now st' (user_id p) = Inr (p\<lparr>last_updated := t\<rparr>)
     \<and> (\<exists>q. load_profile parse_dt now st' (user_id p) = Inr q
           \<and> user_id q = user_id p \<and> skills q = skills p
           \<and> total_modules_completed q = total_modules_completed p
           \<and> overall_avg_score q = overall_avg_score p
           \<and> last_updated q = t)"
proof -
  let ?st = "st\<lparr>files := (files st)(get_profile_path (user_id p) \<mapsto> model_dump_json str_dt p)\<rparr>"
  from assms(1) have s: "save_profile str_dt st p = Inr ?st"
    by (simp add: save_profile_def Let_def)
  have "files ?st (get_profile_path (user_id p)) = Some (model_dump_json str_dt p)"
    by simp
  then have "load_profile parse_dt now ?st (user_id p) = Inr (p\<lparr>last_updated := t\<rparr>)"
    using assms(2) by (simp add: load_profile_def profile_roundtrip)
  with s show ?thesis by simp
qed

text \<open>
  A store that is empty and writable everywhere, a clock text that reads back as the
  time it renders, and the profile \<open>profile_one\<close>: what is loaded is what was saved.
\<close>

theorem save_load_roundtrip_witness:
  "\<exists>st'. save_profile (\<lambda>d. ''1970-01-01 00:00:00.000001'')
             \<lparr>files = (\<lambda>f. None), writable = (\<lambda>f. True)\<rparr> profile_one = Inr st'
      \<and> load_profile (\<lambda>s. if s = ''1970-01-01 00:00:00.000001'' then Some 1 else None) 0 st'
            ''demo_user'' = Inr profile_one"
proof -
  let ?str = "\<lambda>d::datetime. ''1970-01-01 00:00:00.000001''"
  let ?parse = "\<lambda>s. if s = ''1970-01-01 00:00:00.000001'' then Some (1::datetime) else None"
  let ?st = "\<lparr>files = (\<lambda>f. None), writable = (\<lambda>f. True)\<rparr>"
  have w: "writable ?st (get_profile_path (user_id profile_one))"
    by simp
  have h: "?parse (?str (last_updated profile_one)) = Some 1"
    by simp
  have u: "user_id profile_one = ''demo_user''"
    and e: "profile_one\<lparr>last_updated := 1\<rparr> = profile_one"
    by (simp_all add: profile_one_def)
  from save_load_roundtrip [where parse_dt = ?parse and str_dt = ?str and now = 0, OF w h]
  obtain st' where "save_profile ?str ?st profile_one = Inr st'"
    and "load_profile ?parse 0 st' ''demo_user'' = Inr profile_one"
    unfolding u e by (elim exE conjE)
  then show ?thesis by (intro exI conjI)
qed

end
